theory Spec2Isabelle
  imports Complex_Main "HOL-Library.Option_ord" "HOL-Library.Multiset"
begin

section \<open>SQL values and three-valued logic\<close>

text \<open>
  The notebook sends five SQL statements to BigQuery. A column value is modelled by
  an \<open>option\<close>: \<open>None\<close> is SQL's NULL. A FLOAT64 value is modelled by the rational
  number it denotes (NaN and the infinities are outside the model), an INT64 value by
  an \<open>int\<close>, a STRING by a \<open>string\<close>. The rounding of the decimal literals
  to FLOAT64 is part of the model; the quotient of the division by 368570 is taken
  exact.

  A comparison with a NULL operand is NULL; \<open>AND\<close> and \<open>OR\<close> follow SQL's
  three-valued tables; \<open>WHERE\<close> and \<open>JOIN ... ON\<close> keep a row only when the
  condition is TRUE; \<open>IF(c, a, b)\<close> yields \<open>b\<close> when \<open>c\<close> is FALSE or NULL.
\<close>

definition sql_gt :: "rat option \<Rightarrow> rat \<Rightarrow> bool option" where
  "sql_gt a c = (case a of None \<Rightarrow> None | Some x \<Rightarrow> Some (c < x))"

definition sql_lt :: "rat option \<Rightarrow> rat \<Rightarrow> bool option" where
  "sql_lt a c = (case a of None \<Rightarrow> None | Some x \<Rightarrow> Some (x < c))"

definition sql_eq :: "string option \<Rightarrow> string \<Rightarrow> bool option" where
  "sql_eq a c = (case a of None \<Rightarrow> None | Some x \<Rightarrow> Some (x = c))"

definition sql_div :: "rat option \<Rightarrow> rat \<Rightarrow> rat option" where
  "sql_div a c = (case a of None \<Rightarrow> None | Some x \<Rightarrow> Some (x / c))"

fun sql_and :: "bool option \<Rightarrow> bool option \<Rightarrow> bool option" where
  "sql_and (Some False) _ = Some False"
| "sql_and _ (Some False) = Some False"
| "sql_and (Some True) (Some True) = Some True"
| "sql_and _ _ = None"

fun sql_or :: "bool option \<Rightarrow> bool option \<Rightarrow> bool option" where
  "sql_or (Some True) _ = Some True"
| "sql_or _ (Some True) = Some True"
| "sql_or (Some False) (Some False) = Some False"
| "sql_or _ _ = None"

definition sql_if :: "bool option \<Rightarrow> 'a \<Rightarrow> 'a \<Rightarrow> 'a" where
  "sql_if c a b = (if c = Some True then a else b)"

definition sql_where :: "('r \<Rightarrow> bool option) \<Rightarrow> 'r list \<Rightarrow> 'r list" where
  "sql_where c rows = filter (\<lambda>r. c r = Some True) rows"

section \<open>FLOAT64 literals\<close>

text \<open>
  The centroid and marker columns are FLOAT64, and a decimal literal of the SQL text
  that is compared with them denotes the FLOAT64 nearest to it, which need not be the
  decimal itself. \<open>FLOAT64 m e\<close> is the number with significand \<open>m\<close> and
  exponent \<open>e\<close>; \<open>nearest_FLOAT64 d m e\<close> says that it is a normal FLOAT64
  closer to the decimal \<open>d\<close> than half a unit in its last place, hence the value
  of the literal \<open>d\<close>. The integer literals 15000, 368570, 20 and 10 are exact.
\<close>

definition FLOAT64 :: "int \<Rightarrow> int \<Rightarrow> rat" where
  "FLOAT64 m e = (if 0 \<le> e then of_int m * 2 ^ nat e else of_int m / 2 ^ nat (- e))"

definition nearest_FLOAT64 :: "rat \<Rightarrow> int \<Rightarrow> int \<Rightarrow> bool" where
  "nearest_FLOAT64 d m e =
     (2 ^ 52 \<le> m \<and> m < 2 ^ 53 \<and> - 1074 \<le> e \<and> e \<le> 971
      \<and> 2 * \<bar>d - FLOAT64 m e\<bar> < FLOAT64 1 e)"

definition literal_23076_9 :: rat where
  "literal_23076_9 = FLOAT64 6343329970755994 (- 38)"

definition literal_30384_6 :: rat where
  "literal_30384_6 = FLOAT64 8352055251330662 (- 38)"

definition literal_9615_3 :: rat where
  "literal_9615_3 = FLOAT64 5286067077277286 (- 39)"

definition literal_3704_5 :: rat where
  "literal_3704_5 = FLOAT64 8146281650192384 (- 41)"

definition literal_7589_48 :: rat where
  "literal_7589_48 = FLOAT64 8344721508773396 (- 40)"

definition literal_570_68 :: rat where
  "literal_570_68 = FLOAT64 5019754365913661 (- 43)"

definition literal_9_29324770787722 :: rat where
  "literal_9_29324770787722 = FLOAT64 5231633364282196 (- 49)"

lemmas literals =
  literal_23076_9_def literal_30384_6_def literal_9615_3_def literal_3704_5_def
  literal_7589_48_def literal_570_68_def literal_9_29324770787722_def FLOAT64_def

lemma literals_nearest:
  "nearest_FLOAT64 23076.9 6343329970755994 (- 38)"
  "nearest_FLOAT64 30384.6 8352055251330662 (- 38)"
  "nearest_FLOAT64 9615.3 5286067077277286 (- 39)"
  "nearest_FLOAT64 3704.5 8146281650192384 (- 41)"
  "nearest_FLOAT64 7589.48 8344721508773396 (- 40)"
  "nearest_FLOAT64 570.68 5019754365913661 (- 43)"
  "nearest_FLOAT64 9.29324770787722 5231633364282196 (- 49)"
  by (simp_all add: nearest_FLOAT64_def FLOAT64_def)

text \<open>
  The literal 23076.9 lies above its decimal and the literal 30384.6 below: a
  centroid stored as 23076.9 or as 30384.6 is that FLOAT64, and lies on the border of
  the rectangle, not inside it.
\<close>

lemma literals_and_decimals:
  "23076.9 < literal_23076_9" "literal_30384_6 < 30384.6" "literal_9615_3 < 9615.3"
  "literal_3704_5 = 3704.5" "literal_7589_48 < 7589.48" "literal_570_68 < 570.68"
  "9.29324770787722 < literal_9_29324770787722"
  by (simp_all add: literals)

section \<open>Tables\<close>

text \<open>
  A row of \<^verbatim>\<open>isb-cgc-bq.HTAN.imaging_level4_HMS_mel_mask_current\<close>, with the
  columns the notebook reads (the table has further marker columns, which no query
  of the notebook mentions). The result rows of the queries extend the column
  \<open>CellID\<close>, and most of them \<open>X_centroid\<close> and \<open>Y_centroid\<close> as well.
\<close>

record identified =
  CellID :: "int option"

record located = identified +
  X_centroid :: "rat option"
  Y_centroid :: "rat option"

record cell = located +
  SOX10_cellRingMask :: "rat option"
  S100B_cellRingMask :: "rat option"
  CD63_cellRingMask :: "rat option"
  HTAN_Biospecimen_ID :: "string option"

record labelled = located +
  celltype :: string

section \<open>Labeling tumor cells (notebook section 4.1)\<close>

text \<open>
  \<^verbatim>\<open>
  WITH cells AS (
    SELECT  CellID, X_centroid, Y_centroid,
      IF ( SOX10_cellRingMask > 3704.5 AND (S100B_cellRingMask > 7589.48 OR CD63_cellRingMask > 570.68 ),
        'Tumor', 'Other'  ) AS celltype
    FROM `isb-cgc-bq.HTAN.imaging_level4_HMS_mel_mask_current`
    WHERE HTAN_Biospecimen_ID = 'HTA7_1_3'
  )
  SELECT CellID, X_centroid, Y_centroid, celltype
  FROM cells
  WHERE X_centroid > 23076.9 AND X_centroid < 30384.6
    AND Y_centroid > 9615.3 AND Y_centroid < 15000
  \<close>
\<close>

definition classification_celltype :: "cell \<Rightarrow> string" where
  "classification_celltype r =
     sql_if (sql_and (sql_gt (SOX10_cellRingMask r) literal_3704_5)
                     (sql_or (sql_gt (S100B_cellRingMask r) literal_7589_48)
                             (sql_gt (CD63_cellRingMask r) literal_570_68)))
       ''Tumor'' ''Other''"

definition classification_cells :: "cell list \<Rightarrow> labelled list" where
  "classification_cells tbl =
     map (\<lambda>r. \<lparr>CellID = CellID r, X_centroid = X_centroid r, Y_centroid = Y_centroid r,
               celltype = classification_celltype r\<rparr>)
       (sql_where (\<lambda>r. sql_eq (HTAN_Biospecimen_ID r) ''HTA7_1_3'') tbl)"

definition classification_query :: "cell list \<Rightarrow> labelled list" where
  "classification_query tbl =
     sql_where (\<lambda>c. sql_and (sql_and (sql_and (sql_gt (X_centroid c) literal_23076_9)
                                               (sql_lt (X_centroid c) literal_30384_6))
                                      (sql_gt (Y_centroid c) literal_9615_3))
                             (sql_lt (Y_centroid c) 15000))
       (classification_cells tbl)"

text \<open>
  The two-valued reading of the conditions: a NULL value exceeds nothing and lies
  in no rectangle.
\<close>

definition exceeds :: "rat option \<Rightarrow> rat \<Rightarrow> bool" where
  "exceeds a c = (case a of None \<Rightarrow> False | Some x \<Rightarrow> c < x)"

definition inside_rectangle :: "rat option \<Rightarrow> rat option \<Rightarrow> bool" where
  "inside_rectangle X Y =
     (case X of None \<Rightarrow> False
      | Some x \<Rightarrow> (case Y of None \<Rightarrow> False
                  | Some y \<Rightarrow> literal_23076_9 < x \<and> x < literal_30384_6 \<and> literal_9615_3 < y \<and> y < 15000))"

definition tumor_markers :: "rat option \<Rightarrow> rat option \<Rightarrow> rat option \<Rightarrow> bool" where
  "tumor_markers sox10 s100b cd63 =
     (exceeds sox10 literal_3704_5 \<and> (exceeds s100b literal_7589_48 \<or> exceeds cd63 literal_570_68))"

definition label_of :: "cell \<Rightarrow> string" where
  "label_of r =
     (if tumor_markers (SOX10_cellRingMask r) (S100B_cellRingMask r) (CD63_cellRingMask r)
      then ''Tumor'' else ''Other'')"

definition of_biospecimen :: "cell \<Rightarrow> bool" where
  "of_biospecimen r = (HTAN_Biospecimen_ID r = Some ''HTA7_1_3'')"

lemma sql_gt_True: "(sql_gt a c = Some True) = exceeds a c"
  by (simp add: sql_gt_def exceeds_def split: option.split)

lemma sql_eq_True: "(sql_eq a c = Some True) = (a = Some c)"
  by (auto simp: sql_eq_def split: option.split)

lemma sql_and_True: "(sql_and a b = Some True) = (a = Some True \<and> b = Some True)"
  by (cases "(a, b)" rule: sql_and.cases) auto

lemma sql_or_True: "(sql_or a b = Some True) = (a = Some True \<or> b = Some True)"
  by (cases "(a, b)" rule: sql_or.cases) auto

lemma box_condition:
  "(sql_and (sql_and (sql_and (sql_gt X a) (sql_lt X b)) (sql_gt Y c)) (sql_lt Y d) = Some True)
     = (case X of None \<Rightarrow> False
        | Some x \<Rightarrow> (case Y of None \<Rightarrow> False | Some y \<Rightarrow> a < x \<and> x < b \<and> c < y \<and> y < d))"
  by (auto simp: sql_and_True sql_gt_def sql_lt_def split: option.split)

lemma threshold_condition:
  "(sql_and (sql_gt a u) (sql_or (sql_gt b v) (sql_gt c w)) = Some True)
     = (exceeds a u \<and> (exceeds b v \<or> exceeds c w))"
  by (simp add: sql_and_True sql_or_True sql_gt_True)

lemma sql_where_map: "sql_where c (map f xs) = map f (sql_where (\<lambda>r. c (f r)) xs)"
  by (simp add: sql_where_def filter_map o_def)

lemma sql_where_twice:
  "sql_where c (sql_where d xs) = filter (\<lambda>r. d r = Some True \<and> c r = Some True) xs"
  by (simp add: sql_where_def conj_commute)

lemma inside_rectangle_condition:
  "(sql_and (sql_and (sql_and (sql_gt X literal_23076_9) (sql_lt X literal_30384_6)) (sql_gt Y literal_9615_3))
      (sql_lt Y 15000) = Some True) = inside_rectangle X Y"
  by (simp add: box_condition inside_rectangle_def split: option.split)

lemma classification_celltype_label: "classification_celltype r = label_of r"
  unfolding classification_celltype_def sql_if_def threshold_condition label_of_def
    tumor_markers_def by simp

text \<open>
  C2. The classification query returns exactly the rows of biospecimen HTA7_1_3
  whose coordinates lie strictly inside the rectangle (23076.9, 9615.3)-(30384.6,
  15000), the corners being the FLOAT64 values of these literals, in table order and
  with their multiplicity, and the label of a returned row is 'Tumor' exactly when
  SOX10_cellRingMask > 3704.5 and (S100B_cellRingMask > 7589.48 or CD63_cellRingMask
  > 570.68), and 'Other' otherwise.
\<close>

theorem classification_query_exact:
  "classification_query tbl =
     map (\<lambda>r. \<lparr>CellID = CellID r, X_centroid = X_centroid r, Y_centroid = Y_centroid r,
               celltype = label_of r\<rparr>)
       (filter (\<lambda>r. of_biospecimen r \<and> inside_rectangle (X_centroid r) (Y_centroid r)) tbl)"
  unfolding classification_query_def classification_cells_def classification_celltype_label
    sql_where_map sql_where_twice located.select_convs inside_rectangle_condition
  by (simp add: sql_eq_True of_biospecimen_def)

section \<open>The geospatial functions of the query engine\<close>

text \<open>
  \<open>ST_GeogPoint\<close>, \<open>ST_Distance\<close>, \<open>ST_DWithin\<close> and \<open>ST_CLUSTERDBSCAN\<close> belong
  to BigQuery, not to the notebook. A point is the pair of its longitude and latitude
  in degrees. The engine's geodesic distance (in meters) and its DBSCAN are parameters
  of the model: \<open>dbscan E window epsilon minimum i\<close> is the cluster number that
  the engine gives to row \<open>i\<close> of a window holding the geographies \<open>window\<close>,
  \<open>None\<close> for a row that it leaves unclustered. Every function is NULL on a NULL
  argument; \<open>ST_DWithin\<close> holds when the distance is at most its third argument.
\<close>

datatype geography = GeogPoint (longitude: rat) (latitude: rat)

record engine =
  geodesic_distance :: "geography \<Rightarrow> geography \<Rightarrow> rat"
  dbscan :: "geography option list \<Rightarrow> rat \<Rightarrow> nat \<Rightarrow> nat \<Rightarrow> int option"

definition ST_GeogPoint :: "rat option \<Rightarrow> rat option \<Rightarrow> geography option" where
  "ST_GeogPoint lon lat =
     (case lon of None \<Rightarrow> None
      | Some x \<Rightarrow> (case lat of None \<Rightarrow> None | Some y \<Rightarrow> Some (GeogPoint x y)))"

definition ST_Distance :: "engine \<Rightarrow> geography option \<Rightarrow> geography option \<Rightarrow> rat option" where
  "ST_Distance E a b =
     (case a of None \<Rightarrow> None
      | Some u \<Rightarrow> (case b of None \<Rightarrow> None | Some v \<Rightarrow> Some (geodesic_distance E u v)))"

definition ST_DWithin :: "engine \<Rightarrow> geography option \<Rightarrow> geography option \<Rightarrow> rat \<Rightarrow> bool option" where
  "ST_DWithin E a b d = (case ST_Distance E a b of None \<Rightarrow> None | Some m \<Rightarrow> Some (m \<le> d))"

definition ST_CLUSTERDBSCAN ::
  "engine \<Rightarrow> geography option list \<Rightarrow> rat \<Rightarrow> nat \<Rightarrow> nat \<Rightarrow> int option" where
  "ST_CLUSTERDBSCAN E window epsilon minimum_geographies i =
     dbscan E window epsilon minimum_geographies i"

section \<open>Local neighborhoods (notebook section 4.2)\<close>

text \<open>
  \<^verbatim>\<open>
  WITH geodat AS(
     SELECT CellID, X_centroid, Y_centroid,
      IF ( SOX10_cellRingMask > 3704.5 AND (S100B_cellRingMask > 7589.48 OR CD63_cellRingMask > 570.68 ),
        'Tumor', 'Other'  ) AS celltype,
      ST_GeogPoint(X_centroid/368570 ,Y_centroid/368570 ) as p,
     FROM `isb-cgc-bq.HTAN.imaging_level4_HMS_mel_mask_current`
     WHERE HTAN_Biospecimen_ID='HTA7_1_3'
  )
  SELECT t1.CellID , t1.X_centroid, t1.Y_centroid, t1.p, t1.celltype,
    t2.CellID AS  CellID_1, t2.X_centroid AS X_centroid_1, t2.Y_centroid AS Y_centroid_1, t2.p AS p_1, t2.celltype AS celltype_1,
    ST_Distance(t1.p,t2.p) as Distance
  FROM geodat as t1
  JOIN geodat as t2
  ON ST_DWithin(t1.p, t2.p, 9.29324770787722)
  \<close>
  The join is written as the nested loop over \<open>t1\<close> and \<open>t2\<close>; the engine fixes no
  order of the result, and the statements below are about membership.
\<close>

record geodat_row = labelled +
  p :: "geography option"

record pair_row = geodat_row +
  CellID_1 :: "int option"
  X_centroid_1 :: "rat option"
  Y_centroid_1 :: "rat option"
  p_1 :: "geography option"
  celltype_1 :: string
  Distance :: "rat option"

definition geodat_celltype :: "cell \<Rightarrow> string" where
  "geodat_celltype r =
     sql_if (sql_and (sql_gt (SOX10_cellRingMask r) literal_3704_5)
                     (sql_or (sql_gt (S100B_cellRingMask r) literal_7589_48)
                             (sql_gt (CD63_cellRingMask r) literal_570_68)))
       ''Tumor'' ''Other''"

definition geodat_p :: "cell \<Rightarrow> geography option" where
  "geodat_p r = ST_GeogPoint (sql_div (X_centroid r) 368570) (sql_div (Y_centroid r) 368570)"

definition geodat :: "cell list \<Rightarrow> geodat_row list" where
  "geodat tbl =
     map (\<lambda>r. \<lparr>CellID = CellID r, X_centroid = X_centroid r, Y_centroid = Y_centroid r,
               celltype = geodat_celltype r, p = geodat_p r\<rparr>)
       (sql_where (\<lambda>r. sql_eq (HTAN_Biospecimen_ID r) ''HTA7_1_3'') tbl)"

definition select_pair :: "engine \<Rightarrow> geodat_row \<Rightarrow> geodat_row \<Rightarrow> pair_row" where
  "select_pair E t1 t2 =
     \<lparr>CellID = CellID t1, X_centroid = X_centroid t1, Y_centroid = Y_centroid t1,
      celltype = celltype t1, p = p t1,
      CellID_1 = CellID t2, X_centroid_1 = X_centroid t2, Y_centroid_1 = Y_centroid t2,
      p_1 = p t2, celltype_1 = celltype t2,
      Distance = ST_Distance E (p t1) (p t2)\<rparr>"

definition proximity_query :: "engine \<Rightarrow> cell list \<Rightarrow> pair_row list" where
  "proximity_query E tbl =
     concat (map (\<lambda>t1. map (select_pair E t1)
                          (sql_where (\<lambda>t2. ST_DWithin E (p t1) (p t2) literal_9_29324770787722)
                             (geodat tbl)))
               (geodat tbl))"

text \<open>
  In the words of the specification: the geodesic point of a record divides both pixel coordinates
  by 368570, two records are near when the distance of their points is at most
  9.29324770787722 meters, and \<open>pair_of E r1 r2\<close> is the output row that pairs
  \<open>r1\<close> with \<open>r2\<close>.
\<close>

definition rescaled_point :: "cell \<Rightarrow> geography option" where
  "rescaled_point r =
     (case X_centroid r of None \<Rightarrow> None
      | Some x \<Rightarrow> (case Y_centroid r of None \<Rightarrow> None
                  | Some y \<Rightarrow> Some (GeogPoint (x / 368570) (y / 368570))))"

definition near :: "engine \<Rightarrow> cell \<Rightarrow> cell \<Rightarrow> bool" where
  "near E r1 r2 =
     (case rescaled_point r1 of None \<Rightarrow> False
      | Some a \<Rightarrow> (case rescaled_point r2 of None \<Rightarrow> False
                  | Some b \<Rightarrow> geodesic_distance E a b \<le> literal_9_29324770787722))"

definition pair_of :: "engine \<Rightarrow> cell \<Rightarrow> cell \<Rightarrow> pair_row" where
  "pair_of E r1 r2 =
     \<lparr>CellID = CellID r1, X_centroid = X_centroid r1, Y_centroid = Y_centroid r1,
      celltype = label_of r1, p = rescaled_point r1,
      CellID_1 = CellID r2, X_centroid_1 = X_centroid r2, Y_centroid_1 = Y_centroid r2,
      p_1 = rescaled_point r2, celltype_1 = label_of r2,
      Distance = (case rescaled_point r1 of None \<Rightarrow> None
                  | Some a \<Rightarrow> (case rescaled_point r2 of None \<Rightarrow> None
                              | Some b \<Rightarrow> Some (geodesic_distance E a b)))\<rparr>"

definition swap_pair :: "pair_row \<Rightarrow> pair_row" where
  "swap_pair row =
     \<lparr>CellID = CellID_1 row, X_centroid = X_centroid_1 row, Y_centroid = Y_centroid_1 row,
      celltype = celltype_1 row, p = p_1 row,
      CellID_1 = CellID row, X_centroid_1 = X_centroid row, Y_centroid_1 = Y_centroid row,
      p_1 = p row, celltype_1 = celltype row, Distance = Distance row\<rparr>"

text \<open>A sample engine, to run the queries on concrete tables: the taxicab metric on
  degrees, 111195 meters to the degree, and a DBSCAN that puts a window of at least
  \<open>minimum\<close> rows into one cluster.\<close>

definition taxicab_engine :: engine where
  "taxicab_engine =
     \<lparr>geodesic_distance = (\<lambda>a b. 111195 * (\<bar>longitude a - longitude b\<bar> + \<bar>latitude a - latitude b\<bar>)),
      dbscan = (\<lambda>window epsilon minimum i. if minimum \<le> length window then Some 0 else None)\<rparr>"

lemma geodat_celltype_label: "geodat_celltype r = label_of r"
  unfolding geodat_celltype_def sql_if_def threshold_condition label_of_def
    tumor_markers_def by simp

lemma geodat_p_rescaled: "geodat_p r = rescaled_point r"
  by (simp add: geodat_p_def ST_GeogPoint_def sql_div_def rescaled_point_def split: option.split)

lemma geodat_rows:
  "geodat tbl =
     map (\<lambda>r. \<lparr>CellID = CellID r, X_centroid = X_centroid r, Y_centroid = Y_centroid r,
               celltype = label_of r, p = rescaled_point r\<rparr>)
       (filter of_biospecimen tbl)"
  unfolding geodat_def geodat_celltype_label geodat_p_rescaled sql_where_def sql_eq_True
    of_biospecimen_def by (rule refl)

lemma ST_DWithin_near:
  "(ST_DWithin E (rescaled_point r1) (rescaled_point r2) literal_9_29324770787722 = Some True)
     = near E r1 r2"
  by (simp add: ST_DWithin_def ST_Distance_def near_def split: option.split)

lemma select_pair_of:
  "select_pair E
      \<lparr>CellID = CellID r1, X_centroid = X_centroid r1, Y_centroid = Y_centroid r1,
       celltype = label_of r1, p = rescaled_point r1\<rparr>
      \<lparr>CellID = CellID r2, X_centroid = X_centroid r2, Y_centroid = Y_centroid r2,
       celltype = label_of r2, p = rescaled_point r2\<rparr>
     = pair_of E r1 r2"
  by (simp add: select_pair_def pair_of_def ST_Distance_def)

lemma proximity_query_exact:
  "proximity_query E tbl =
     concat (map (\<lambda>r1. map (pair_of E r1) (filter (near E r1) (filter of_biospecimen tbl)))
               (filter of_biospecimen tbl))"
  unfolding proximity_query_def geodat_rows sql_where_map
  unfolding map_map o_def geodat_row.select_convs
  unfolding sql_where_def ST_DWithin_near select_pair_of
  by (rule refl)


section \<open>Sample rows\<close>

text \<open>
  Rows on which the queries are run below. \<open>cell_a\<close> and \<open>cell_b\<close> are tumor
  cells inside the rectangle, ten pixels apart; \<open>cell_c\<close> is a tumor cell outside the
  rectangle, ten pixels from \<open>cell_f\<close>, a tumor cell just inside it; \<open>cell_d\<close> is
  a cell of the other kind far outside the rectangle; \<open>cell_e\<close> belongs to another
  biospecimen; \<open>cell_g\<close> and \<open>cell_h\<close> are tumor cells whose X coordinate is stored
  as 23076.9 and as 30384.6, on the border of the rectangle; \<open>cell_n\<close> has no X
  coordinate.
\<close>

definition cell_a :: cell where
  "cell_a = \<lparr>CellID = Some 1, X_centroid = Some 25000, Y_centroid = Some 10000,
     SOX10_cellRingMask = Some 4000, S100B_cellRingMask = Some 8000,
     CD63_cellRingMask = Some 0, HTAN_Biospecimen_ID = Some ''HTA7_1_3''\<rparr>"

definition cell_b :: cell where
  "cell_b = \<lparr>CellID = Some 2, X_centroid = Some 25010, Y_centroid = Some 10000,
     SOX10_cellRingMask = Some 4000, S100B_cellRingMask = None,
     CD63_cellRingMask = Some 600, HTAN_Biospecimen_ID = Some ''HTA7_1_3''\<rparr>"

definition cell_c :: cell where
  "cell_c = \<lparr>CellID = Some 3, X_centroid = Some 23070, Y_centroid = Some 12000,
     SOX10_cellRingMask = Some 5000, S100B_cellRingMask = Some 9000,
     CD63_cellRingMask = Some 700, HTAN_Biospecimen_ID = Some ''HTA7_1_3''\<rparr>"

definition cell_d :: cell where
  "cell_d = \<lparr>CellID = Some 4, X_centroid = Some 100, Y_centroid = Some 100,
     SOX10_cellRingMask = Some 100, S100B_cellRingMask = Some 9000,
     CD63_cellRingMask = Some 700, HTAN_Biospecimen_ID = Some ''HTA7_1_3''\<rparr>"

definition cell_e :: cell where
  "cell_e = \<lparr>CellID = Some 5, X_centroid = Some 26000, Y_centroid = Some 14000,
     SOX10_cellRingMask = Some 4000, S100B_cellRingMask = Some 8000,
     CD63_cellRingMask = Some 0, HTAN_Biospecimen_ID = Some ''HTA7_2_1''\<rparr>"

definition cell_f :: cell where
  "cell_f = \<lparr>CellID = Some 6, X_centroid = Some 23080, Y_centroid = Some 12000,
     SOX10_cellRingMask = Some 5000, S100B_cellRingMask = Some 9000,
     CD63_cellRingMask = Some 700, HTAN_Biospecimen_ID = Some ''HTA7_1_3''\<rparr>"

definition cell_g :: cell where
  "cell_g = \<lparr>CellID = Some 11, X_centroid = Some literal_23076_9, Y_centroid = Some 12000,
     SOX10_cellRingMask = Some 5000, S100B_cellRingMask = Some 9000,
     CD63_cellRingMask = Some 700, HTAN_Biospecimen_ID = Some ''HTA7_1_3''\<rparr>"

definition cell_h :: cell where
  "cell_h = \<lparr>CellID = Some 12, X_centroid = Some literal_30384_6, Y_centroid = Some 12000,
     SOX10_cellRingMask = Some 5000, S100B_cellRingMask = Some 9000,
     CD63_cellRingMask = Some 700, HTAN_Biospecimen_ID = Some ''HTA7_1_3''\<rparr>"

definition cell_n :: cell where
  "cell_n = \<lparr>CellID = Some 7, X_centroid = None, Y_centroid = Some 10000,
     SOX10_cellRingMask = Some 4000, S100B_cellRingMask = Some 8000,
     CD63_cellRingMask = Some 0, HTAN_Biospecimen_ID = Some ''HTA7_1_3''\<rparr>"

lemmas sample_cells =
  cell_a_def cell_b_def cell_c_def cell_d_def cell_e_def cell_f_def cell_g_def cell_h_def
  cell_n_def

lemmas two_valued_defs =
  of_biospecimen_def near_def rescaled_point_def label_of_def tumor_markers_def exceeds_def
  inside_rectangle_def pair_of_def literals

lemma classification_sample:
  "classification_query [cell_a, cell_c, cell_d, cell_e, cell_n, cell_b] =
     [\<lparr>CellID = Some 1, X_centroid = Some 25000, Y_centroid = Some 10000, celltype = ''Tumor''\<rparr>,
      \<lparr>CellID = Some 2, X_centroid = Some 25010, Y_centroid = Some 10000, celltype = ''Tumor''\<rparr>]"
  by (simp add: classification_query_exact two_valued_defs sample_cells)

lemma classification_border:
  "classification_query [cell_g, cell_h] = []"
  by (simp add: classification_query_exact two_valued_defs sample_cells)

lemma taxicab_symmetric:
  "geodesic_distance taxicab_engine a b = geodesic_distance taxicab_engine b a"
  by (simp add: taxicab_engine_def abs_minus_commute)

lemma taxicab_zero: "geodesic_distance taxicab_engine a a = 0"
  by (simp add: taxicab_engine_def)

section \<open>Properties of the proximity relation\<close>

lemma near_points:
  "near E r1 r2 =
     (ST_DWithin E (p (pair_of E r1 r2)) (p_1 (pair_of E r1 r2)) literal_9_29324770787722 = Some True)"
  unfolding ST_DWithin_near [symmetric] by (simp add: pair_of_def)

lemma proximity_query_set:
  "set (proximity_query E tbl) =
     {pair_of E r1 r2 | r1 r2.
        r1 \<in> set tbl \<and> r2 \<in> set tbl \<and> of_biospecimen r1 \<and> of_biospecimen r2 \<and> near E r1 r2}"
  unfolding proximity_query_exact by auto

text \<open>
  C5. For two rows of biospecimen HTA7_1_3, the proximity query emits their pair
  exactly when both have a geodesic point (both pixel coordinates divided by
  368570) and the distance of the two points is within 9.29324770787722 meters;
  and every emitted row is the pair of two such rows.
\<close>

theorem proximity_query_pairs:
  "(\<forall>r1\<in>set tbl. \<forall>r2\<in>set tbl. of_biospecimen r1 \<and> of_biospecimen r2 \<longrightarrow>
      (pair_of E r1 r2 \<in> set (proximity_query E tbl)) = near E r1 r2)
   \<and> (\<forall>row\<in>set (proximity_query E tbl). \<exists>r1\<in>set tbl. \<exists>r2\<in>set tbl.
        of_biospecimen r1 \<and> of_biospecimen r2 \<and> near E r1 r2 \<and> row = pair_of E r1 r2)"
proof (intro conjI ballI impI)
  fix r1 r2
  assume mem: "r1 \<in> set tbl" "r2 \<in> set tbl" and bio: "of_biospecimen r1 \<and> of_biospecimen r2"
  show "(pair_of E r1 r2 \<in> set (proximity_query E tbl)) = near E r1 r2"
  proof
    assume "pair_of E r1 r2 \<in> set (proximity_query E tbl)"
    then obtain s1 s2 where eq: "pair_of E r1 r2 = pair_of E s1 s2" and s: "near E s1 s2"
      unfolding proximity_query_set by blast
    have "near E r1 r2 = near E s1 s2"
      unfolding near_points eq by (rule refl)
    with s show "near E r1 r2" by simp
  next
    assume "near E r1 r2"
    with mem bio show "pair_of E r1 r2 \<in> set (proximity_query E tbl)"
      unfolding proximity_query_set by blast
  qed
next
  fix row
  assume "row \<in> set (proximity_query E tbl)"
  then show "\<exists>r1\<in>set tbl. \<exists>r2\<in>set tbl.
      of_biospecimen r1 \<and> of_biospecimen r2 \<and> near E r1 r2 \<and> row = pair_of E r1 r2"
    unfolding proximity_query_set by blast
qed

theorem proximity_query_pairs_witness:
  "pair_of taxicab_engine cell_a cell_b \<in> set (proximity_query taxicab_engine [cell_a, cell_d, cell_b])
   \<and> pair_of taxicab_engine cell_a cell_d \<notin> set (proximity_query taxicab_engine [cell_a, cell_d, cell_b])"
proof -
  have n1: "near taxicab_engine cell_a cell_b"
    by (simp add: two_valued_defs sample_cells taxicab_engine_def)
  have n2: "\<not> near taxicab_engine cell_a cell_d"
    by (simp add: two_valued_defs sample_cells taxicab_engine_def)
  have bio: "of_biospecimen cell_a" "of_biospecimen cell_b" "of_biospecimen cell_d"
    by (simp_all add: of_biospecimen_def sample_cells)
  from proximity_query_pairs [of "[cell_a, cell_d, cell_b]" taxicab_engine] n1 n2 bio
  show ?thesis by simp
qed

text \<open>
  C4, as the query has it. Provided the engine's distance is symmetric and zero
  from a point to itself: with every emitted row the row with the two sides
  exchanged is emitted too, and every row of biospecimen HTA7_1_3 that has both
  coordinates is paired with itself, at distance zero. A row with a NULL coordinate
  has a NULL point, for which \<open>ST_DWithin\<close> is NULL: it is paired with nothing.
\<close>

theorem proximity_symmetric:
  assumes sym: "\<And>a b. geodesic_distance E a b = geodesic_distance E b a"
      and zero: "\<And>a. geodesic_distance E a a = 0"
  shows "(\<forall>row\<in>set (proximity_query E tbl). swap_pair row \<in> set (proximity_query E tbl))
       \<and> (\<forall>r\<in>set tbl. of_biospecimen r \<and> X_centroid r \<noteq> None \<and> Y_centroid r \<noteq> None \<longrightarrow>
            pair_of E r r \<in> set (proximity_query E tbl) \<and> Distance (pair_of E r r) = Some 0)"
proof (intro conjI ballI impI)
  fix row
  assume "row \<in> set (proximity_query E tbl)"
  then obtain r1 r2 where r: "r1 \<in> set tbl" "r2 \<in> set tbl" "of_biospecimen r1"
      "of_biospecimen r2" "near E r1 r2" and row: "row = pair_of E r1 r2"
    unfolding proximity_query_set by blast
  have "near E r2 r1"
    using r(5) by (auto simp: near_def sym split: option.splits)
  moreover have "swap_pair row = pair_of E r2 r1"
    unfolding row by (simp add: swap_pair_def pair_of_def sym split: option.splits)
  ultimately show "swap_pair row \<in> set (proximity_query E tbl)"
    using r unfolding proximity_query_set by blast
next
  fix r
  assume mem: "r \<in> set tbl"
    and r: "of_biospecimen r \<and> X_centroid r \<noteq> None \<and> Y_centroid r \<noteq> None"
  then obtain g where g: "rescaled_point r = Some g"
    by (auto simp: rescaled_point_def)
  then have "near E r r"
    by (simp add: near_def zero literals)
  with mem r show "pair_of E r r \<in> set (proximity_query E tbl)"
    unfolding proximity_query_set by blast
  show "Distance (pair_of E r r) = Some 0"
    using g by (simp add: pair_of_def zero)
qed

theorem proximity_symmetric_witness:
  "swap_pair (pair_of taxicab_engine cell_a cell_b) \<in> set (proximity_query taxicab_engine [cell_a, cell_b])
   \<and> pair_of taxicab_engine cell_a cell_a \<in> set (proximity_query taxicab_engine [cell_a, cell_b])
   \<and> Distance (pair_of taxicab_engine cell_a cell_a) = Some 0"
proof -
  have ab: "pair_of taxicab_engine cell_a cell_b \<in> set (proximity_query taxicab_engine [cell_a, cell_b])"
    unfolding proximity_query_set
    by (rule CollectI, intro exI conjI, rule refl)
      (simp_all add: two_valued_defs sample_cells taxicab_engine_def)
  have a: "of_biospecimen cell_a \<and> X_centroid cell_a \<noteq> None \<and> Y_centroid cell_a \<noteq> None"
    by (simp add: of_biospecimen_def cell_a_def)
  from proximity_symmetric [of taxicab_engine "[cell_a, cell_b]", OF taxicab_symmetric taxicab_zero]
    ab a
  show ?thesis by simp
qed

text \<open>
  The statement without the restriction to rows with coordinates fails: \<open>cell_n\<close>
  is a row of the biospecimen, and the query run on it emits nothing.
\<close>

theorem proximity_null_coordinate_counterexample:
  "of_biospecimen cell_n \<and> proximity_query taxicab_engine [cell_n] = []"
  by (simp add: proximity_query_exact two_valued_defs cell_n_def)

text \<open>
  C8. The label depends on the three marker columns only: two rows that agree on
  SOX10_cellRingMask, S100B_cellRingMask and CD63_cellRingMask get the same label
  from the classification query and from the proximity query, and the two queries
  give the same label, whatever the other columns hold.
\<close>

theorem celltype_function_of_markers:
  assumes "SOX10_cellRingMask r = SOX10_cellRingMask r'"
      and "S100B_cellRingMask r = S100B_cellRingMask r'"
      and "CD63_cellRingMask r = CD63_cellRingMask r'"
  shows "classification_celltype r = classification_celltype r'
       \<and> geodat_celltype r = geodat_celltype r'
       \<and> classification_celltype r = geodat_celltype r'"
  using assms by (simp add: classification_celltype_def geodat_celltype_def)

theorem celltype_function_of_markers_witness:
  "classification_celltype cell_a = classification_celltype cell_e
   \<and> geodat_celltype cell_a = geodat_celltype cell_e
   \<and> classification_celltype cell_a = geodat_celltype cell_e"
proof -
  have sox10: "SOX10_cellRingMask cell_a = SOX10_cellRingMask cell_e"
    and s100b: "S100B_cellRingMask cell_a = S100B_cellRingMask cell_e"
    and cd63: "CD63_cellRingMask cell_a = CD63_cellRingMask cell_e"
    by (simp_all add: cell_a_def cell_e_def)
  show ?thesis
    by (rule celltype_function_of_markers [OF sox10 s100b cd63])
qed


section \<open>Distribution of neighboring tumor cells (notebook section 4.3)\<close>

text \<open>
  \<^verbatim>\<open>
  WITH cellp AS (
    SELECT CellID, celltype, CellID_1, celltype_1
    FROM `{}.temp15432.Melanoma_CyCIF_HTA7_1_3_points_within_20um`
    WHERE  X_centroid > 23076.9 AND X_centroid < 30384.6
    AND Y_centroid > 9615.3 AND Y_centroid < 15000
  )
  SELECT CellID, COUNTIF(celltype_1 = 'Tumor') -1  AS N_Tumor_Cells,
  FROM cellp
  WHERE celltype = 'Tumor'
  GROUP BY CellID
  \<close>
  The query reads the table of pairs, here the argument \<open>T\<close>. A row of \<open>cellp\<close>
  is the tuple of its four columns, in the order of the \<open>SELECT\<close>. \<open>GROUP BY\<close>
  makes one group for each distinct \<open>CellID\<close> (NULL being one of them); the engine
  fixes no order of the groups.
\<close>

type_synonym cellp_row = "int option \<times> string \<times> int option \<times> string"

record count_row = identified +
  N_Tumor_Cells :: int

definition cellp :: "pair_row list \<Rightarrow> cellp_row list" where
  "cellp T =
     map (\<lambda>row. (CellID row, celltype row, CellID_1 row, celltype_1 row))
       (sql_where (\<lambda>row. sql_and (sql_and (sql_and (sql_gt (X_centroid row) literal_23076_9)
                                                     (sql_lt (X_centroid row) literal_30384_6))
                                            (sql_gt (Y_centroid row) literal_9615_3))
                                   (sql_lt (Y_centroid row) 15000))
          T)"

definition aggregation_query :: "pair_row list \<Rightarrow> count_row list" where
  "aggregation_query T =
     (let rows = filter (\<lambda>(c, t, c1, t1). t = ''Tumor'') (cellp T)
      in map (\<lambda>g. \<lparr>CellID = g,
                    N_Tumor_Cells =
                      int (length (filter (\<lambda>(c, t, c1, t1). t1 = ''Tumor'')
                                     (filter (\<lambda>(c, t, c1, t1). c = g) rows))) - 1\<rparr>)
           (remdups (map (\<lambda>(c, t, c1, t1). c) rows)))"

text \<open>
  In the words of the specification: a center is a row of the table whose first cell is labelled
  'Tumor' and lies strictly inside the rectangle; \<open>tumor_pairs T c\<close> are the rows
  that pair the center \<open>c\<close> with a cell labelled 'Tumor'.
\<close>

definition tumor_center :: "pair_row \<Rightarrow> bool" where
  "tumor_center row =
     (celltype row = ''Tumor'' \<and> inside_rectangle (X_centroid row) (Y_centroid row))"

definition tumor_pairs :: "pair_row list \<Rightarrow> int option \<Rightarrow> pair_row list" where
  "tumor_pairs T c =
     filter (\<lambda>row. CellID row = c \<and> tumor_center row \<and> celltype_1 row = ''Tumor'') T"

definition move_neighbor ::
  "(pair_row \<Rightarrow> rat option) \<Rightarrow> (pair_row \<Rightarrow> rat option) \<Rightarrow> pair_row \<Rightarrow> pair_row" where
  "move_neighbor fx fy row = row\<lparr>X_centroid_1 := fx row, Y_centroid_1 := fy row\<rparr>"

lemma cellp_rows:
  "cellp T =
     map (\<lambda>row. (CellID row, celltype row, CellID_1 row, celltype_1 row))
       (filter (\<lambda>row. inside_rectangle (X_centroid row) (Y_centroid row)) T)"
  unfolding cellp_def sql_where_def inside_rectangle_condition by (rule refl)

lemma aggregation_query_exact:
  "aggregation_query T =
     map (\<lambda>g. \<lparr>CellID = g, N_Tumor_Cells = int (length (tumor_pairs T g)) - 1\<rparr>)
       (remdups (map CellID (filter tumor_center T)))"
proof -
  have keys: "map (\<lambda>(c, t, c1, t1). c) (filter (\<lambda>(c, t, c1, t1). t = ''Tumor'') (cellp T))
      = map CellID (filter tumor_center T)"
    by (simp add: cellp_rows filter_map o_def tumor_center_def [abs_def] conj_commute)
  have count: "length (filter (\<lambda>(c, t, c1, t1). t1 = ''Tumor'')
        (filter (\<lambda>(c, t, c1, t1). c = g) (filter (\<lambda>(c, t, c1, t1). t = ''Tumor'') (cellp T))))
      = length (tumor_pairs T g)" for g
    by (simp add: cellp_rows filter_map o_def tumor_center_def tumor_pairs_def conj_commute
        conj_left_commute)
  show ?thesis
    unfolding aggregation_query_def Let_def keys count by (rule refl)
qed

text \<open>
  The result of the aggregation query on a table \<open>T\<close>: one output row for each
  CellID of a center and none for any other CellID, the number of rows that pair the
  center with a cell labelled 'Tumor', minus 1, and what that number is when the
  table pairs the center with itself once.
\<close>

lemma aggregation_counts_of_table:
  "CellID ` set (aggregation_query T) = CellID ` {row \<in> set T. tumor_center row}
   \<and> distinct (map CellID (aggregation_query T))
   \<and> (\<forall>out\<in>set (aggregation_query T).
        N_Tumor_Cells out = int (length (tumor_pairs T (CellID out))) - 1)
   \<and> (\<forall>out\<in>set (aggregation_query T).
        length (filter (\<lambda>row. CellID_1 row = CellID out) (tumor_pairs T (CellID out))) = 1 \<longrightarrow>
        N_Tumor_Cells out =
          int (length (filter (\<lambda>row. CellID_1 row \<noteq> CellID out) (tumor_pairs T (CellID out)))))"
proof (intro conjI ballI impI)
  show "CellID ` set (aggregation_query T) = CellID ` {row \<in> set T. tumor_center row}"
    unfolding aggregation_query_exact by (force simp: image_iff)
  show "distinct (map CellID (aggregation_query T))"
    unfolding aggregation_query_exact by (simp add: o_def)
next
  fix out
  assume "out \<in> set (aggregation_query T)"
  then show n: "N_Tumor_Cells out = int (length (tumor_pairs T (CellID out))) - 1"
    unfolding aggregation_query_exact by auto
  assume "length (filter (\<lambda>row. CellID_1 row = CellID out) (tumor_pairs T (CellID out))) = 1"
  with sum_length_filter_compl [of "\<lambda>row. CellID_1 row = CellID out" "tumor_pairs T (CellID out)"]
  show "N_Tumor_Cells out =
      int (length (filter (\<lambda>row. CellID_1 row \<noteq> CellID out) (tumor_pairs T (CellID out))))"
    unfolding n by simp
qed


lemma aggregation_counts_of_table_sample:
  "\<lparr>CellID = Some 6, N_Tumor_Cells = 1\<rparr>
      \<in> set (aggregation_query (proximity_query taxicab_engine [cell_f, cell_c]))
   \<and> length (filter (\<lambda>row. CellID_1 row = Some 6)
        (tumor_pairs (proximity_query taxicab_engine [cell_f, cell_c]) (Some 6))) = 1
   \<and> length (filter (\<lambda>row. CellID_1 row \<noteq> Some 6)
        (tumor_pairs (proximity_query taxicab_engine [cell_f, cell_c]) (Some 6))) = 1"
proof -
  let ?T = "proximity_query taxicab_engine [cell_f, cell_c]"
  let ?out = "\<lparr>CellID = Some 6, N_Tumor_Cells = 1\<rparr>"
  have out: "?out \<in> set (aggregation_query ?T)"
    by (simp add: proximity_query_exact aggregation_query_exact two_valued_defs
        tumor_pairs_def tumor_center_def cell_f_def cell_c_def taxicab_engine_def)
  have self: "length (filter (\<lambda>row. CellID_1 row = Some 6) (tumor_pairs ?T (Some 6))) = 1"
    by (simp add: proximity_query_exact two_valued_defs tumor_pairs_def tumor_center_def
        cell_f_def cell_c_def taxicab_engine_def)
  have self': "length (filter (\<lambda>row. CellID_1 row = CellID ?out)
      (tumor_pairs ?T (CellID ?out))) = 1"
    using self by simp
  have "\<forall>out\<in>set (aggregation_query ?T).
      length (filter (\<lambda>row. CellID_1 row = CellID out) (tumor_pairs ?T (CellID out))) = 1 \<longrightarrow>
      N_Tumor_Cells out =
        int (length (filter (\<lambda>row. CellID_1 row \<noteq> CellID out) (tumor_pairs ?T (CellID out))))"
    using aggregation_counts_of_table [of ?T] by blast
  from this [rule_format, OF out self']
  have "length (filter (\<lambda>row. CellID_1 row \<noteq> Some 6) (tumor_pairs ?T (Some 6))) = 1"
    by simp
  with out self show ?thesis by simp
qed

text \<open>
  The statement for every row labelled 'Tumor' fails: \<open>cell_c\<close> is labelled 'Tumor'
  and is paired with itself, but lies outside the rectangle, and the aggregation
  query has no output row for it.
\<close>

theorem aggregation_outside_rectangle_counterexample:
  "label_of cell_c = ''Tumor''
   \<and> proximity_query taxicab_engine [cell_c] = [pair_of taxicab_engine cell_c cell_c]
   \<and> aggregation_query (proximity_query taxicab_engine [cell_c]) = []"
  by (simp add: proximity_query_exact aggregation_query_exact two_valued_defs
      tumor_center_def cell_c_def taxicab_engine_def)

lemma tumor_center_move_neighbor: "tumor_center (move_neighbor fx fy row) = tumor_center row"
  by (simp add: tumor_center_def move_neighbor_def)

lemma tumor_pairs_move_neighbor:
  "tumor_pairs (map (move_neighbor fx fy) T) g = map (move_neighbor fx fy) (tumor_pairs T g)"
  by (simp add: tumor_pairs_def filter_map o_def tumor_center_move_neighbor)
    (simp add: move_neighbor_def)

lemma centers_move_neighbor:
  "map CellID (filter tumor_center (map (move_neighbor fx fy) T))
     = map CellID (filter tumor_center T)"
  by (simp add: filter_map o_def tumor_center_move_neighbor) (simp add: move_neighbor_def)

lemma aggregation_centers_inside:
  "aggregation_query (filter (\<lambda>row. inside_rectangle (X_centroid row) (Y_centroid row)) T)
     = aggregation_query T"
proof -
  have centers: "filter tumor_center
      (filter (\<lambda>row. inside_rectangle (X_centroid row) (Y_centroid row)) T)
      = filter tumor_center T"
    by (auto simp: tumor_center_def intro: filter_cong)
  have pairs: "tumor_pairs (filter (\<lambda>row. inside_rectangle (X_centroid row) (Y_centroid row)) T) g
      = tumor_pairs T g" for g
    by (auto simp: tumor_pairs_def tumor_center_def intro: filter_cong)
  show ?thesis
    unfolding aggregation_query_exact centers pairs by (rule refl)
qed

lemma aggregation_added_pair:
  assumes "tumor_center row" and "celltype_1 row = ''Tumor''"
  shows "\<lparr>CellID = CellID row,
          N_Tumor_Cells = (int (length (tumor_pairs T (CellID row))) - 1) + 1\<rparr>
         \<in> set (aggregation_query (row # T))"
proof -
  have "tumor_pairs (row # T) (CellID row) = row # tumor_pairs T (CellID row)"
    using assms by (simp add: tumor_pairs_def)
  then have "int (length (tumor_pairs (row # T) (CellID row))) - 1
      = (int (length (tumor_pairs T (CellID row))) - 1) + 1"
    by simp
  moreover have "CellID row \<in> set (remdups (map CellID (filter tumor_center (row # T))))"
    using assms by simp
  ultimately show ?thesis
    unfolding aggregation_query_exact by (simp add: image_iff)
qed

text \<open>
  C10. The rectangle restricts the first cell of a pair only. The rows of the table
  whose first cell lies outside the rectangle contribute nothing, and the output
  CellIDs are those of the centers, the 'Tumor' first cells strictly inside the
  rectangle. The neighbor's coordinates are never read: replacing X_centroid_1 and
  Y_centroid_1 in the rows of the table by any values leaves the result unchanged.
  And a tumor neighbor outside the rectangle is counted: adding to the table a row
  that pairs a center with a cell labelled 'Tumor' that lies outside the rectangle
  raises the N_Tumor_Cells of that center by one.
\<close>

theorem aggregation_restricts_center_only:
  "aggregation_query (filter (\<lambda>row. inside_rectangle (X_centroid row) (Y_centroid row)) T)
     = aggregation_query T
   \<and> CellID ` set (aggregation_query T) = CellID ` {row \<in> set T. tumor_center row}
   \<and> aggregation_query (map (move_neighbor fx fy) T) = aggregation_query T
   \<and> (\<forall>out\<in>set (aggregation_query T).
        N_Tumor_Cells out = int (length (tumor_pairs T (CellID out))) - 1)
   \<and> (\<forall>row. tumor_center row \<and> celltype_1 row = ''Tumor''
          \<and> \<not> inside_rectangle (X_centroid_1 row) (Y_centroid_1 row) \<longrightarrow>
        \<lparr>CellID = CellID row,
         N_Tumor_Cells = (int (length (tumor_pairs T (CellID row))) - 1) + 1\<rparr>
          \<in> set (aggregation_query (row # T)))"
proof (intro conjI allI impI)
  show "aggregation_query (filter (\<lambda>row. inside_rectangle (X_centroid row) (Y_centroid row)) T)
      = aggregation_query T"
    by (rule aggregation_centers_inside)
  show "CellID ` set (aggregation_query T) = CellID ` {row \<in> set T. tumor_center row}"
    using aggregation_counts_of_table [of T] by blast
  show "aggregation_query (map (move_neighbor fx fy) T) = aggregation_query T"
    unfolding aggregation_query_exact centers_move_neighbor tumor_pairs_move_neighbor length_map
    by (rule refl)
  show "\<forall>out\<in>set (aggregation_query T).
      N_Tumor_Cells out = int (length (tumor_pairs T (CellID out))) - 1"
    using aggregation_counts_of_table [of T] by blast
next
  fix row
  assume "tumor_center row \<and> celltype_1 row = ''Tumor''
      \<and> \<not> inside_rectangle (X_centroid_1 row) (Y_centroid_1 row)"
  then show "\<lparr>CellID = CellID row,
       N_Tumor_Cells = (int (length (tumor_pairs T (CellID row))) - 1) + 1\<rparr>
      \<in> set (aggregation_query (row # T))"
    using aggregation_added_pair [of row T] by blast
qed

text \<open>
  For instance \<open>cell_f\<close> lies inside the rectangle and its neighbor \<open>cell_c\<close>
  outside; both are tumor cells. With the pair of \<open>cell_f\<close> and itself alone the
  count of \<open>cell_f\<close> is 0, with the pair of \<open>cell_f\<close> and \<open>cell_c\<close> added it
  is 1.
\<close>

theorem aggregation_restricts_center_only_witness:
  "\<not> inside_rectangle (X_centroid_1 (pair_of taxicab_engine cell_f cell_c))
        (Y_centroid_1 (pair_of taxicab_engine cell_f cell_c))
   \<and> aggregation_query [pair_of taxicab_engine cell_f cell_f]
       = [\<lparr>CellID = Some 6, N_Tumor_Cells = 0\<rparr>]
   \<and> \<lparr>CellID = Some 6, N_Tumor_Cells = 1\<rparr>
       \<in> set (aggregation_query
                [pair_of taxicab_engine cell_f cell_c, pair_of taxicab_engine cell_f cell_f])"
proof -
  let ?row = "pair_of taxicab_engine cell_f cell_c"
  let ?T = "[pair_of taxicab_engine cell_f cell_f]"
  have row: "tumor_center ?row \<and> celltype_1 ?row = ''Tumor''
      \<and> \<not> inside_rectangle (X_centroid_1 ?row) (Y_centroid_1 ?row)"
    by (simp add: tumor_center_def two_valued_defs cell_f_def cell_c_def)
  have T: "aggregation_query ?T = [\<lparr>CellID = Some 6, N_Tumor_Cells = 0\<rparr>]"
    by (simp add: aggregation_query_exact tumor_pairs_def tumor_center_def two_valued_defs
        cell_f_def)
  have n: "int (length (tumor_pairs ?T (Some 6))) - 1 + 1 = 1"
    by (simp add: tumor_pairs_def tumor_center_def two_valued_defs cell_f_def)
  have id: "CellID ?row = Some 6"
    by (simp add: pair_of_def cell_f_def)
  from aggregation_restricts_center_only [of ?T]
  have "\<forall>row. tumor_center row \<and> celltype_1 row = ''Tumor''
          \<and> \<not> inside_rectangle (X_centroid_1 row) (Y_centroid_1 row) \<longrightarrow>
        \<lparr>CellID = CellID row,
         N_Tumor_Cells = (int (length (tumor_pairs ?T (CellID row))) - 1) + 1\<rparr>
          \<in> set (aggregation_query (row # ?T))"
    by blast
  from this [rule_format, OF row]
  have "\<lparr>CellID = Some 6, N_Tumor_Cells = 1\<rparr> \<in> set (aggregation_query (?row # ?T))"
    unfolding id n .
  with row T show ?thesis by simp
qed

lemma outside_neighbor_counted:
  "\<not> inside_rectangle (X_centroid cell_c) (Y_centroid cell_c)
   \<and> aggregation_query (proximity_query taxicab_engine [cell_f, cell_c])
       = [\<lparr>CellID = Some 6, N_Tumor_Cells = 1\<rparr>]"
  by (simp add: proximity_query_exact aggregation_query_exact two_valued_defs
      tumor_pairs_def tumor_center_def cell_f_def cell_c_def taxicab_engine_def)

lemma aggregation_border:
  "aggregation_query (proximity_query taxicab_engine [cell_g, cell_h]) = []"
  by (simp add: proximity_query_exact aggregation_query_exact two_valued_defs
      tumor_pairs_def tumor_center_def cell_g_def cell_h_def taxicab_engine_def)


section \<open>Clustering tumor cells (notebook section 4.4)\<close>

text \<open>
  \<^verbatim>\<open>
  WITH cells AS (
      SELECT CellID, X_centroid, Y_centroid,
        ST_GeogPoint(X_centroid/368570 ,Y_centroid/368570 ) as p
      FROM `isb-cgc-bq.HTAN.imaging_level4_HMS_mel_mask_current`
      WHERE HTAN_Biospecimen_ID='HTA7_1_3'
        AND X_centroid > 23076.9 AND X_centroid < 30384.6
        AND Y_centroid > 9615.3 AND Y_centroid < 15000
        AND SOX10_cellRingMask > 3704.5
        AND (S100B_cellRingMask > 7589.48 OR CD63_cellRingMask > 570.68 )
  )
  SELECT CellID, X_centroid, Y_centroid, ST_CLUSTERDBSCAN(p, 20, 10) OVER () AS cluster_num
  FROM cells
  ORDER BY cluster_num
  \<close>
  A row of this \<open>cells\<close> is the pair of its three located columns and its point.
  \<open>OVER ()\<close> makes all rows of \<open>cells\<close> one window. \<open>ORDER BY\<close> sorts ascending,
  NULL first; the engine fixes no order among equal cluster numbers, the model keeps
  the order of the window there.
\<close>

record cluster_row = located +
  cluster_num :: "int option"

definition clustering_cells :: "cell list \<Rightarrow> (located \<times> geography option) list" where
  "clustering_cells tbl =
     map (\<lambda>r. (\<lparr>CellID = CellID r, X_centroid = X_centroid r, Y_centroid = Y_centroid r\<rparr>,
                ST_GeogPoint (sql_div (X_centroid r) 368570) (sql_div (Y_centroid r) 368570)))
       (sql_where
          (\<lambda>r. sql_and (sql_and (sql_and (sql_and (sql_and (sql_and
                   (sql_eq (HTAN_Biospecimen_ID r) ''HTA7_1_3'')
                   (sql_gt (X_centroid r) literal_23076_9))
                   (sql_lt (X_centroid r) literal_30384_6))
                   (sql_gt (Y_centroid r) literal_9615_3))
                   (sql_lt (Y_centroid r) 15000))
                   (sql_gt (SOX10_cellRingMask r) literal_3704_5))
                   (sql_or (sql_gt (S100B_cellRingMask r) literal_7589_48)
                           (sql_gt (CD63_cellRingMask r) literal_570_68)))
          tbl)"

definition clustering_query :: "engine \<Rightarrow> cell list \<Rightarrow> cluster_row list" where
  "clustering_query E tbl =
     (let cs = clustering_cells tbl; window = map snd cs
      in sort_key cluster_num
           (map (\<lambda>i. \<lparr>CellID = CellID (fst (cs ! i)), X_centroid = X_centroid (fst (cs ! i)),
                       Y_centroid = Y_centroid (fst (cs ! i)),
                       cluster_num = ST_CLUSTERDBSCAN E window 20 10 i\<rparr>)
              [0..<length cs]))"

text \<open>The rows that the clustering query keeps.\<close>

definition tumor_in_rectangle :: "cell \<Rightarrow> bool" where
  "tumor_in_rectangle r =
     (of_biospecimen r \<and> inside_rectangle (X_centroid r) (Y_centroid r)
      \<and> tumor_markers (SOX10_cellRingMask r) (S100B_cellRingMask r) (CD63_cellRingMask r))"

lemma clustering_condition:
  "(sql_and (sql_and (sql_and (sql_and (sql_and (sql_and
       (sql_eq B ''HTA7_1_3'') (sql_gt X literal_23076_9)) (sql_lt X literal_30384_6)) (sql_gt Y literal_9615_3))
       (sql_lt Y 15000)) (sql_gt a literal_3704_5)) (sql_or (sql_gt b literal_7589_48) (sql_gt c literal_570_68))
     = Some True)
   = (B = Some ''HTA7_1_3'' \<and> inside_rectangle X Y \<and> tumor_markers a b c)"
  by (auto simp: sql_and_True sql_or_True sql_eq_True sql_gt_def sql_lt_def
      inside_rectangle_def tumor_markers_def exceeds_def split: option.splits)

lemma clustering_cells_rows:
  "clustering_cells tbl =
     map (\<lambda>r. (\<lparr>CellID = CellID r, X_centroid = X_centroid r, Y_centroid = Y_centroid r\<rparr>,
                rescaled_point r))
       (filter tumor_in_rectangle tbl)"
  unfolding clustering_cells_def sql_where_def clustering_condition geodat_p_def [symmetric]
    geodat_p_rescaled tumor_in_rectangle_def [abs_def] of_biospecimen_def
  by (rule refl)

lemma clustering_query_exact:
  "clustering_query E tbl =
     sort_key cluster_num
       (map (\<lambda>i. \<lparr>CellID = CellID (filter tumor_in_rectangle tbl ! i),
                   X_centroid = X_centroid (filter tumor_in_rectangle tbl ! i),
                   Y_centroid = Y_centroid (filter tumor_in_rectangle tbl ! i),
                   cluster_num =
                     dbscan E (map rescaled_point (filter tumor_in_rectangle tbl)) 20 10 i\<rparr>)
          [0..<length (filter tumor_in_rectangle tbl)])"
  unfolding clustering_query_def Let_def clustering_cells_rows ST_CLUSTERDBSCAN_def
  by (rule arg_cong [where f = "sort_key cluster_num"]) (simp add: o_def)

text \<open>
  C6, as the query has it. The window of the clustering function holds the rescaled
  points (both coordinates divided by 368570, the same construction as in the
  proximity query) of the rows of HTA7_1_3 that lie strictly inside the rectangle and
  pass the tumor thresholds, and of no other row; the window is the whole of
  \<open>cells\<close>; and the output has one row for each of these rows, with the cluster
  number that the function gives to that row of the window.
\<close>

theorem clustering_query_window:
  "map snd (clustering_cells tbl) = map rescaled_point (filter tumor_in_rectangle tbl)
   \<and> map p (geodat tbl) = map rescaled_point (filter of_biospecimen tbl)
   \<and> length (clustering_query E tbl) = length (filter tumor_in_rectangle tbl)
   \<and> mset (clustering_query E tbl) =
       mset (map (\<lambda>i. \<lparr>CellID = CellID (filter tumor_in_rectangle tbl ! i),
                        X_centroid = X_centroid (filter tumor_in_rectangle tbl ! i),
                        Y_centroid = Y_centroid (filter tumor_in_rectangle tbl ! i),
                        cluster_num =
                          dbscan E (map rescaled_point (filter tumor_in_rectangle tbl)) 20 10 i\<rparr>)
               [0..<length (filter tumor_in_rectangle tbl)])"
proof (intro conjI)
  show "map snd (clustering_cells tbl) = map rescaled_point (filter tumor_in_rectangle tbl)"
    by (simp add: clustering_cells_rows o_def)
  show "map p (geodat tbl) = map rescaled_point (filter of_biospecimen tbl)"
    by (simp add: geodat_rows o_def)
  show "length (clustering_query E tbl) = length (filter tumor_in_rectangle tbl)"
    unfolding clustering_query_exact by simp
  show "mset (clustering_query E tbl) =
       mset (map (\<lambda>i. \<lparr>CellID = CellID (filter tumor_in_rectangle tbl ! i),
                        X_centroid = X_centroid (filter tumor_in_rectangle tbl ! i),
                        Y_centroid = Y_centroid (filter tumor_in_rectangle tbl ! i),
                        cluster_num =
                          dbscan E (map rescaled_point (filter tumor_in_rectangle tbl)) 20 10 i\<rparr>)
               [0..<length (filter tumor_in_rectangle tbl)])"
    unfolding clustering_query_exact by (rule mset_sort)
qed

text \<open>
  The clustering query does not run over all rows of HTA7_1_3: \<open>cell_d\<close> is a row
  of the biospecimen, its point is among the points of the proximity query, and the
  window of the clustering query is empty.
\<close>

theorem clustering_not_all_records_counterexample:
  "of_biospecimen cell_d
   \<and> map p (geodat [cell_d]) = [Some (GeogPoint (100 / 368570) (100 / 368570))]
   \<and> map snd (clustering_cells [cell_d]) = []
   \<and> clustering_query taxicab_engine [cell_d] = []"
  by (simp add: geodat_rows clustering_cells_rows clustering_query_exact tumor_in_rectangle_def
      two_valued_defs cell_d_def)

lemma clustering_border:
  "clustering_query taxicab_engine [cell_g, cell_h] = []"
  by (simp add: clustering_query_exact tumor_in_rectangle_def two_valued_defs
      cell_g_def cell_h_def)



section \<open>The notebook and the service\<close>

text \<open>
  The notebook talks to BigQuery through \<open>bigquery.Client\<close> and
  \<open>pandas_gbq.read_gbq\<close>. The service holds the public imaging table, the datasets
  of the billing project, its named tables, and the anonymous temporary tables in
  which it keeps the result of every query job that names no destination.

  The client libraries are not part of the notebook. A call into them either
  returns or raises; what happens inside a call (the requests it sends, the ones it
  repeats, the wrapping of the service's answer into the library's exception) is not
  modelled. \<open>calls\<close> counts the calls made so far, and \<open>outage S n\<close> is the
  message of the failure with which call \<open>n\<close> ends, if it fails on the side of the
  service (a failed authentication, an exhausted quota, a refused request).
\<close>

datatype api_error = Refused string | NotFound string | InvalidQuery string

datatype exception =
  NameError string | DefaultCredentialsError string | AuthorizationError string
  | GoogleAPICallError api_error | GenericGBQException api_error

datatype sql = Classification | Proximity | Peek string | Aggregation string | Clustering

datatype dataframe =
  Labelled "labelled list" | Pairs "pair_row list" | Counts "count_row list"
  | Clusters "cluster_row list"

text \<open>
  A job configuration as the commented lines of the notebook write it:
  \<^verbatim>\<open>bigquery.QueryJobConfig(destination=destination_table, write_disposition='WRITE_TRUNCATE')\<close>.
\<close>

datatype job_config = QueryJobConfig string

datatype query_job = QueryJob sql "job_config option"

record service =
  imaging_level4 :: "cell list"
  datasets :: "string list"
  tables :: "string \<Rightarrow> dataframe option"
  temporary :: "dataframe list"
  calls :: nat
  outage :: "nat \<Rightarrow> string option"

definition api_call :: "service \<Rightarrow> (api_error + unit) \<times> service" where
  "api_call S =
     (case outage S (calls S) of
        Some msg \<Rightarrow> (Inl (Refused msg), S\<lparr>calls := calls S + 1\<rparr>)
      | None \<Rightarrow> (Inr (), S\<lparr>calls := calls S + 1\<rparr>))"

text \<open>
  \<^verbatim>\<open>{}.temp15432.Melanoma_CyCIF_HTA7_1_3_points_within_20um\<close> with the project
  filled in by \<open>format\<close>.
\<close>

definition points_within_20um :: "string \<Rightarrow> string" where
  "points_within_20um project = project @ ''.temp15432.Melanoma_CyCIF_HTA7_1_3_points_within_20um''"

definition limit :: "nat \<Rightarrow> dataframe \<Rightarrow> dataframe" where
  "limit n t =
     (case t of
        Labelled rows \<Rightarrow> Labelled (take n rows)
      | Pairs rows \<Rightarrow> Pairs (take n rows)
      | Counts rows \<Rightarrow> Counts (take n rows)
      | Clusters rows \<Rightarrow> Clusters (take n rows))"

text \<open>
  The five statements of the notebook. The aggregation query names columns of the
  table of pairs, and is rejected on a table of another schema.
\<close>

definition run_sql :: "engine \<Rightarrow> sql \<Rightarrow> service \<Rightarrow> api_error + dataframe" where
  "run_sql E q S =
     (case q of
        Classification \<Rightarrow> Inr (Labelled (classification_query (imaging_level4 S)))
      | Proximity \<Rightarrow> Inr (Pairs (proximity_query E (imaging_level4 S)))
      | Peek project \<Rightarrow>
          (case tables S (points_within_20um project) of
             None \<Rightarrow> Inl (NotFound (points_within_20um project))
           | Some t \<Rightarrow> Inr (limit 10 t))
      | Aggregation project \<Rightarrow>
          (case tables S (points_within_20um project) of
             None \<Rightarrow> Inl (NotFound (points_within_20um project))
           | Some (Pairs T) \<Rightarrow> Inr (Counts (aggregation_query T))
           | Some _ \<Rightarrow> Inl (InvalidQuery (points_within_20um project)))
      | Clustering \<Rightarrow> Inr (Clusters (clustering_query E (imaging_level4 S))))"

text \<open>
  A query job. Without a job configuration the rows go to an anonymous temporary
  table of the job, and no named table is created or changed; with a destination and
  \<open>WRITE_TRUNCATE\<close> they replace the table of that name.
\<close>

definition run_job ::
  "engine \<Rightarrow> sql \<Rightarrow> job_config option \<Rightarrow> service \<Rightarrow> (api_error + dataframe) \<times> service" where
  "run_job E q config S =
     (case api_call S of
        (Inl err, S') \<Rightarrow> (Inl err, S')
      | (Inr u, S') \<Rightarrow>
          (case run_sql E q S' of
             Inl err \<Rightarrow> (Inl err, S')
           | Inr rows \<Rightarrow>
               (Inr rows,
                case config of
                  None \<Rightarrow> S'\<lparr>temporary := rows # temporary S'\<rparr>
                | Some (QueryJobConfig name) \<Rightarrow> S'\<lparr>tables := (tables S')(name := Some rows)\<rparr>)))"

text \<open>
  \<open>pandas_gbq.read_gbq(query, project_id=project_id)\<close> runs the query as a job
  without a destination and returns its rows as a dataframe; it raises its own
  \<open>GenericGBQException\<close> for a failure of the job. \<open>client.query(query)\<close>
  submits a job, with the job configuration given (none, as the notebook calls it);
  \<open>query_job.result()\<close> waits for the job and raises the client library's exception
  if it failed. \<open>client.create_dataset(dataset, exists_ok = True, timeout=30)\<close>
  creates the dataset unless it exists. \<open>auth.authenticate_user()\<close> is Colab's
  authentication.
\<close>

definition read_gbq ::
  "engine \<Rightarrow> sql \<Rightarrow> string \<Rightarrow> service \<Rightarrow> (exception + dataframe) \<times> service" where
  "read_gbq E q project S =
     (case run_job E q None S of
        (Inl err, S') \<Rightarrow> (Inl (GenericGBQException err), S')
      | (Inr rows, S') \<Rightarrow> (Inr rows, S'))"

definition client_query ::
  "sql \<Rightarrow> job_config option \<Rightarrow> service \<Rightarrow> (exception + query_job) \<times> service" where
  "client_query q config S =
     (case api_call S of
        (Inl err, S') \<Rightarrow> (Inl (GoogleAPICallError err), S')
      | (Inr u, S') \<Rightarrow> (Inr (QueryJob q config), S'))"

definition result :: "engine \<Rightarrow> query_job \<Rightarrow> service \<Rightarrow> (exception + dataframe) \<times> service" where
  "result E job S =
     (case job of QueryJob q config \<Rightarrow>
        (case run_job E q config S of
           (Inl err, S') \<Rightarrow> (Inl (GoogleAPICallError err), S')
         | (Inr rows, S') \<Rightarrow> (Inr rows, S')))"

definition create_dataset :: "string \<Rightarrow> service \<Rightarrow> (exception + unit) \<times> service" where
  "create_dataset name S =
     (case api_call S of
        (Inl err, S') \<Rightarrow> (Inl (GoogleAPICallError err), S')
      | (Inr u, S') \<Rightarrow> (Inr (), S'\<lparr>datasets := List.insert name (datasets S')\<rparr>))"

definition authenticate_user :: "service \<Rightarrow> (exception + unit) \<times> service" where
  "authenticate_user S =
     (case api_call S of
        (Inl (Refused msg), S') \<Rightarrow> (Inl (AuthorizationError msg), S')
      | (Inl err, S') \<Rightarrow> (Inl (GoogleAPICallError err), S')
      | (Inr u, S') \<Rightarrow> (Inr (), S'))"

subsection \<open>The state of the kernel\<close>

text \<open>
  The names that the cells bind, the environment variable that \<open>%env\<close> sets, the
  key files on the kernel's machine, and the service. A step of a cell returns a
  value or raises, and leaves a state either way: what a cell has assigned before
  it raises stays assigned.
\<close>

record notebook =
  modules :: "string list"
  GOOGLE_APPLICATION_CREDENTIALS :: "string option"
  key_files :: "string list"
  project_id :: "string option"
  client :: "string option"
  dataset :: "string option"
  query :: "sql option"
  query_job :: "query_job option"
  df :: "dataframe option"
  df1 :: "dataframe option"
  bigquery_service :: service

type_synonym 'a step = "notebook \<Rightarrow> (exception + 'a) \<times> notebook"

definition then_do :: "'a step \<Rightarrow> ('a \<Rightarrow> 'b step) \<Rightarrow> 'b step" where
  "then_do m f nb = (case m nb of (Inl e, nb') \<Rightarrow> (Inl e, nb') | (Inr x, nb') \<Rightarrow> f x nb')"

definition assign :: "(notebook \<Rightarrow> notebook) \<Rightarrow> unit step" where
  "assign f nb = (Inr (), f nb)"

definition name_lookup :: "string \<Rightarrow> (notebook \<Rightarrow> 'a option) \<Rightarrow> 'a step" where
  "name_lookup name var nb =
     (case var nb of None \<Rightarrow> (Inl (NameError name), nb) | Some x \<Rightarrow> (Inr x, nb))"

definition module_lookup :: "string \<Rightarrow> unit step" where
  "module_lookup name nb =
     (if name \<in> set (modules nb) then (Inr (), nb) else (Inl (NameError name), nb))"

definition library_call :: "(service \<Rightarrow> (exception + 'a) \<times> service) \<Rightarrow> 'a step" where
  "library_call f nb =
     (case f (bigquery_service nb) of (r, S) \<Rightarrow> (r, nb\<lparr>bigquery_service := S\<rparr>))"

text \<open>
  \<open>bigquery.Client(project_id)\<close> sends nothing to the service: it reads the key
  file that the environment variable names, and raises when there is none.
\<close>

definition bigquery_Client :: "string \<Rightarrow> string step" where
  "bigquery_Client project nb =
     (case GOOGLE_APPLICATION_CREDENTIALS nb of
        None \<Rightarrow> (Inl (DefaultCredentialsError []), nb)
      | Some path \<Rightarrow>
          (if path \<in> set (key_files nb) then (Inr project, nb)
           else (Inl (DefaultCredentialsError path), nb)))"

subsection \<open>The code cells, in the order of the notebook\<close>

text \<open>
  \<^verbatim>\<open>
  import pandas as pd
  pd.options.mode.chained_assignment = None  # default='warn'
  import seaborn as sns
  import numpy as np
  import matplotlib.pyplot as plt
  from google.cloud import bigquery
  import pandas_gbq
  #from google.colab import auth ## Can be omitted if you are running locally
  \<close>
  The last import is a comment: the cell does not bind \<open>auth\<close>. The packages are
  taken to be installed.
\<close>

definition cell_imports :: "unit step" where
  "cell_imports =
     assign (\<lambda>nb. nb\<lparr>modules :=
       [''pd'', ''sns'', ''np'', ''plt'', ''bigquery'', ''pandas_gbq''] @ modules nb\<rparr>)"

text \<open>
  \<^verbatim>\<open>
  # if you're using Google Colab, authenticate to gcloud with the following:
  auth.authenticate_user()
  \<close>
\<close>

definition cell_authenticate :: "unit step" where
  "cell_authenticate =
     then_do (module_lookup ''auth'') (\<lambda>_. library_call authenticate_user)"

text \<open>
  \<^verbatim>\<open>
  %env GOOGLE_APPLICATION_CREDENTIALS=/home/jovyan/key-file
  project_id = 'isb-cgc-outreach'
  client = bigquery.Client(project_id)
  \<close>
\<close>

definition cell_client :: "unit step" where
  "cell_client =
     then_do (assign (\<lambda>nb. nb\<lparr>GOOGLE_APPLICATION_CREDENTIALS := Some ''/home/jovyan/key-file''\<rparr>)) (\<lambda>_.
     then_do (assign (\<lambda>nb. nb\<lparr>project_id := Some ''isb-cgc-outreach''\<rparr>)) (\<lambda>_.
     then_do (module_lookup ''bigquery'') (\<lambda>_.
     then_do (name_lookup ''project_id'' project_id) (\<lambda>project.
     then_do (bigquery_Client project) (\<lambda>c.
     assign (\<lambda>nb. nb\<lparr>client := Some c\<rparr>))))))"

text \<open>
  \<^verbatim>\<open>
  query = """ ... """                                  (the classification query)
  df = pandas_gbq.read_gbq(query,project_id=project_id)
  \<close>
\<close>

definition cell_classification :: "engine \<Rightarrow> unit step" where
  "cell_classification E =
     then_do (assign (\<lambda>nb. nb\<lparr>query := Some Classification\<rparr>)) (\<lambda>_.
     then_do (module_lookup ''pandas_gbq'') (\<lambda>_.
     then_do (name_lookup ''query'' query) (\<lambda>q.
     then_do (name_lookup ''project_id'' project_id) (\<lambda>project.
     then_do (library_call (read_gbq E q project)) (\<lambda>rows.
     assign (\<lambda>nb. nb\<lparr>df := Some rows\<rparr>))))))"

text \<open>
  \<^verbatim>\<open>
  query = """ ... """                                  (the proximity query)
  \<close>
\<close>

definition cell_proximity :: "unit step" where
  "cell_proximity = assign (\<lambda>nb. nb\<lparr>query := Some Proximity\<rparr>)"

text \<open>
  \<^verbatim>\<open>
  # create a dataset with name temp15432
  dataset_id = dataset = bigquery.Dataset( "{}.temp15432".format(client.project) )
  dataset.location = "US"
  dataset = client.create_dataset(dataset, exists_ok = True, timeout=30)

  # Set destination table options (optional)
  #destination_table = "{}.temp15432.Melanoma_CyCIF_HTA7_1_3_points_within_20um".format(client.project)  # Adjust to your desired location

  #job_config = bigquery.QueryJobConfig(destination=destination_table, write_disposition='WRITE_TRUNCATE' )

  query_job = client.query(query)  # Make an API request.
  query_job.result()  # Wait for the job to complete
  \<close>
  The destination table and the job configuration are comments; the query is
  submitted without them.
\<close>

definition cell_materialize :: "engine \<Rightarrow> unit step" where
  "cell_materialize E =
     then_do (module_lookup ''bigquery'') (\<lambda>_.
     then_do (name_lookup ''client'' client) (\<lambda>project.
     then_do (assign (\<lambda>nb. nb\<lparr>dataset := Some (project @ ''.temp15432'')\<rparr>)) (\<lambda>_.
     then_do (library_call (create_dataset (project @ ''.temp15432''))) (\<lambda>_.
     then_do (name_lookup ''query'' query) (\<lambda>q.
     then_do (library_call (client_query q None)) (\<lambda>job.
     then_do (assign (\<lambda>nb. nb\<lparr>query_job := Some job\<rparr>)) (\<lambda>_.
     then_do (library_call (result E job)) (\<lambda>rows.
     assign (\<lambda>nb. nb)))))))))"

text \<open>
  \<^verbatim>\<open>
  query = """SELECT *
  FROM {}.temp15432.Melanoma_CyCIF_HTA7_1_3_points_within_20um LIMIT 10
  """.format( client.project  )
  df = pandas_gbq.read_gbq(query,project_id=project_id)
  \<close>
\<close>

definition cell_peek :: "engine \<Rightarrow> unit step" where
  "cell_peek E =
     then_do (name_lookup ''client'' client) (\<lambda>project.
     then_do (assign (\<lambda>nb. nb\<lparr>query := Some (Peek project)\<rparr>)) (\<lambda>_.
     then_do (module_lookup ''pandas_gbq'') (\<lambda>_.
     then_do (name_lookup ''query'' query) (\<lambda>q.
     then_do (name_lookup ''project_id'' project_id) (\<lambda>billing.
     then_do (library_call (read_gbq E q billing)) (\<lambda>rows.
     assign (\<lambda>nb. nb\<lparr>df := Some rows\<rparr>)))))))"

text \<open>
  \<^verbatim>\<open>
  query = """ ... """.format( client.project  )        (the aggregation query)
  df1 = pandas_gbq.read_gbq(query,project_id=project_id)
  \<close>
\<close>

definition cell_aggregation :: "engine \<Rightarrow> unit step" where
  "cell_aggregation E =
     then_do (name_lookup ''client'' client) (\<lambda>project.
     then_do (assign (\<lambda>nb. nb\<lparr>query := Some (Aggregation project)\<rparr>)) (\<lambda>_.
     then_do (module_lookup ''pandas_gbq'') (\<lambda>_.
     then_do (name_lookup ''query'' query) (\<lambda>q.
     then_do (name_lookup ''project_id'' project_id) (\<lambda>billing.
     then_do (library_call (read_gbq E q billing)) (\<lambda>rows.
     assign (\<lambda>nb. nb\<lparr>df1 := Some rows\<rparr>)))))))"

text \<open>
  \<^verbatim>\<open>
  query = """ ... """                                  (the clustering query)
  df = pandas_gbq.read_gbq(query,project_id=project_id)
  \<close>
\<close>

definition cell_clustering :: "engine \<Rightarrow> unit step" where
  "cell_clustering E =
     then_do (assign (\<lambda>nb. nb\<lparr>query := Some Clustering\<rparr>)) (\<lambda>_.
     then_do (module_lookup ''pandas_gbq'') (\<lambda>_.
     then_do (name_lookup ''query'' query) (\<lambda>q.
     then_do (name_lookup ''project_id'' project_id) (\<lambda>project.
     then_do (library_call (read_gbq E q project)) (\<lambda>rows.
     assign (\<lambda>nb. nb\<lparr>df := Some rows\<rparr>))))))"


text \<open>Running cells in order stops at the first one that raises.\<close>

fun run_cells :: "unit step list \<Rightarrow> notebook \<Rightarrow> exception option \<times> notebook" where
  "run_cells [] nb = (None, nb)"
| "run_cells (c # cs) nb =
     (case c nb of (Inl e, nb') \<Rightarrow> (Some e, nb') | (Inr u, nb') \<Rightarrow> run_cells cs nb')"

definition notebook_cells :: "engine \<Rightarrow> unit step list" where
  "notebook_cells E =
     [cell_imports, cell_authenticate, cell_client, cell_classification E, cell_proximity,
      cell_materialize E, cell_peek E, cell_aggregation E, cell_clustering E]"

text \<open>A kernel just started on the machine of the teaching session, where the key
  file is; and the kernel after its import and client cells.\<close>

definition fresh_kernel :: "service \<Rightarrow> notebook" where
  "fresh_kernel S =
     \<lparr>modules = [], GOOGLE_APPLICATION_CREDENTIALS = None,
      key_files = [''/home/jovyan/key-file''], project_id = None, client = None,
      dataset = None, query = None, query_job = None, df = None, df1 = None,
      bigquery_service = S\<rparr>"

definition ready_notebook :: "service \<Rightarrow> notebook" where
  "ready_notebook S =
     \<lparr>modules = [''pd'', ''sns'', ''np'', ''plt'', ''bigquery'', ''pandas_gbq''],
      GOOGLE_APPLICATION_CREDENTIALS = Some ''/home/jovyan/key-file'',
      key_files = [''/home/jovyan/key-file''],
      project_id = Some ''isb-cgc-outreach'', client = Some ''isb-cgc-outreach'',
      dataset = None, query = None, query_job = None, df = None, df1 = None,
      bigquery_service = S\<rparr>"

text \<open>States of the service: a billing project without any table, one that already
  holds a table of pairs from an earlier day, one whose table holds the pairs of
  \<open>cell_f\<close> and \<open>cell_c\<close>, and one that refuses the next call.\<close>

definition empty_project :: service where
  "empty_project =
     \<lparr>imaging_level4 = [cell_a, cell_d, cell_b], datasets = [], tables = (\<lambda>name. None),
      temporary = [], calls = 0, outage = (\<lambda>n. None)\<rparr>"

definition stale_project :: service where
  "stale_project =
     \<lparr>imaging_level4 = [cell_a, cell_d, cell_b], datasets = [''isb-cgc-outreach.temp15432''],
      tables = (\<lambda>name. if name = points_within_20um ''isb-cgc-outreach''
                         then Some (Pairs [pair_of taxicab_engine cell_c cell_c]) else None),
      temporary = [], calls = 0, outage = (\<lambda>n. None)\<rparr>"

definition materialized_project :: service where
  "materialized_project =
     \<lparr>imaging_level4 = [cell_f, cell_c], datasets = [''isb-cgc-outreach.temp15432''],
      tables = (\<lambda>name. if name = points_within_20um ''isb-cgc-outreach''
                         then Some (Pairs (proximity_query taxicab_engine [cell_f, cell_c]))
                         else None),
      temporary = [], calls = 0, outage = (\<lambda>n. None)\<rparr>"


section \<open>What a call into the libraries does to the service\<close>

lemma run_sql_calls: "run_sql E q (S\<lparr>calls := n\<rparr>) = run_sql E q S"
  by (cases q) (simp_all add: run_sql_def)

lemma api_call_Inr:
  "(api_call S = (Inr u, S')) = (outage S (calls S) = None \<and> S' = S\<lparr>calls := calls S + 1\<rparr>)"
  by (auto simp: api_call_def split: option.splits)

lemma api_call_Inl:
  "(api_call S = (Inl err, S')) =
     (\<exists>msg. outage S (calls S) = Some msg \<and> err = Refused msg \<and> S' = S\<lparr>calls := calls S + 1\<rparr>)"
  by (auto simp: api_call_def split: option.splits)

lemma run_job_Inr:
  "(run_job E q config S = (Inr rows, S')) =
     (outage S (calls S) = None \<and> run_sql E q S = Inr rows
      \<and> S' = (case config of
                None \<Rightarrow> S\<lparr>calls := calls S + 1, temporary := rows # temporary S\<rparr>
              | Some (QueryJobConfig name) \<Rightarrow>
                  S\<lparr>calls := calls S + 1, tables := (tables S)(name := Some rows)\<rparr>))"
  by (auto simp: run_job_def api_call_def run_sql_calls
      split: sum.splits option.splits job_config.splits)

lemma run_job_Inl:
  "(run_job E q config S = (Inl err, S')) =
     (S' = S\<lparr>calls := calls S + 1\<rparr>
      \<and> ((\<exists>msg. outage S (calls S) = Some msg \<and> err = Refused msg)
         \<or> (outage S (calls S) = None \<and> run_sql E q S = Inl err)))"
  by (auto simp: run_job_def api_call_def run_sql_calls
      split: sum.splits option.splits job_config.splits)

lemma read_gbq_Inr:
  "(read_gbq E q project S = (Inr rows, S')) =
     (outage S (calls S) = None \<and> run_sql E q S = Inr rows
      \<and> S' = S\<lparr>calls := calls S + 1, temporary := rows # temporary S\<rparr>)"
  by (auto simp: read_gbq_def run_job_def api_call_def run_sql_calls
      split: sum.splits option.splits)

lemma read_gbq_Inl:
  "(read_gbq E q project S = (Inl e, S')) =
     (S' = S\<lparr>calls := calls S + 1\<rparr>
      \<and> ((\<exists>msg. outage S (calls S) = Some msg \<and> e = GenericGBQException (Refused msg))
         \<or> (\<exists>err. outage S (calls S) = None \<and> run_sql E q S = Inl err
               \<and> e = GenericGBQException err)))"
  by (auto simp: read_gbq_def run_job_def api_call_def run_sql_calls
      split: sum.splits option.splits)

text \<open>
  With the configuration that the notebook's comment writes, the job would put its
  rows into the named table.
\<close>

lemma run_job_destination:
  "outage S (calls S) = None \<Longrightarrow> run_sql E q S = Inr rows \<Longrightarrow>
     tables (snd (run_job E q (Some (QueryJobConfig name)) S)) name = Some rows"
  by (simp add: run_job_def api_call_def run_sql_calls)

section \<open>The clustering cell\<close>







section \<open>The aggregation cell\<close>

lemma cell_aggregation_Inr:
  "(cell_aggregation E nb = (Inr (), nb')) =
     (\<exists>project T. client nb = Some project \<and> ''pandas_gbq'' \<in> set (modules nb)
        \<and> project_id nb \<noteq> None
        \<and> outage (bigquery_service nb) (calls (bigquery_service nb)) = None
        \<and> tables (bigquery_service nb) (points_within_20um project) = Some (Pairs T)
        \<and> nb' = nb\<lparr>query := Some (Aggregation project),
                     df1 := Some (Counts (aggregation_query T)),
                     bigquery_service :=
                       (bigquery_service nb)
                         \<lparr>calls := calls (bigquery_service nb) + 1,
                          temporary :=
                            Counts (aggregation_query T) # temporary (bigquery_service nb)\<rparr>\<rparr>)"
  by (auto simp: cell_aggregation_def then_do_def assign_def module_lookup_def name_lookup_def
      library_call_def read_gbq_def run_job_def api_call_def run_sql_def
      split: option.splits dataframe.splits)

text \<open>
  C3, as the cell has it. When the aggregation cell completes, \<open>df1\<close> holds
  the result of the aggregation query on the table of pairs \<open>T\<close> of the client's
  project. The result has one row for each CellID of a center (a row of \<open>T\<close>
  labelled 'Tumor' whose own coordinates lie strictly inside the rectangle), and none
  for any other CellID. Its N_Tumor_Cells is the number of rows of \<open>T\<close> that pair
  this center with a cell labelled 'Tumor', minus 1; when exactly one of these rows
  pairs the center with its own CellID, that is the number of rows that pair it
  with a cell of another CellID labelled 'Tumor'.
\<close>

theorem aggregation_cell_counts:
  assumes "cell_aggregation E nb = (Inr (), nb')"
  shows "\<exists>project T. client nb = Some project
       \<and> tables (bigquery_service nb) (points_within_20um project) = Some (Pairs T)
       \<and> df1 nb' = Some (Counts (aggregation_query T))
       \<and> CellID ` set (aggregation_query T) = CellID ` {row \<in> set T. tumor_center row}
       \<and> distinct (map CellID (aggregation_query T))
       \<and> (\<forall>out\<in>set (aggregation_query T).
            N_Tumor_Cells out = int (length (tumor_pairs T (CellID out))) - 1)
       \<and> (\<forall>out\<in>set (aggregation_query T).
            length (filter (\<lambda>row. CellID_1 row = CellID out) (tumor_pairs T (CellID out))) = 1 \<longrightarrow>
            N_Tumor_Cells out =
              int (length (filter (\<lambda>row. CellID_1 row \<noteq> CellID out)
                             (tumor_pairs T (CellID out)))))"
proof -
  from assms obtain project T where c: "client nb = Some project"
    and t: "tables (bigquery_service nb) (points_within_20um project) = Some (Pairs T)"
    and d: "df1 nb' = Some (Counts (aggregation_query T))"
    unfolding cell_aggregation_Inr by auto
  from c t d aggregation_counts_of_table [of T] show ?thesis
    by blast
qed

theorem aggregation_cell_counts_witness:
  "(case cell_aggregation taxicab_engine (ready_notebook materialized_project) of
      (Inl e, nb') \<Rightarrow> False
    | (Inr u, nb') \<Rightarrow> df1 nb' = Some (Counts [\<lparr>CellID = Some 6, N_Tumor_Cells = 1\<rparr>]))"
proof -
  let ?nb = "ready_notebook materialized_project"
  have "\<exists>nb'. cell_aggregation taxicab_engine ?nb = (Inr (), nb')"
    unfolding cell_aggregation_Inr by (simp add: ready_notebook_def materialized_project_def)
  then obtain nb' where run: "cell_aggregation taxicab_engine ?nb = (Inr (), nb')" ..
  from aggregation_cell_counts [OF run] obtain project T
    where c: "client ?nb = Some project"
      and t: "tables (bigquery_service ?nb) (points_within_20um project) = Some (Pairs T)"
      and d: "df1 nb' = Some (Counts (aggregation_query T))"
    by blast
  from c have "project = ''isb-cgc-outreach''"
    by (simp add: ready_notebook_def)
  with t have "T = proximity_query taxicab_engine [cell_f, cell_c]"
    by (simp add: ready_notebook_def materialized_project_def)
  with d outside_neighbor_counted
  have "df1 nb' = Some (Counts [\<lparr>CellID = Some 6, N_Tumor_Cells = 1\<rparr>])"
    by simp
  then show ?thesis
    unfolding run by simp
qed

section \<open>The table of pairs is never written\<close>

lemmas cell_steps =
  then_do_def assign_def module_lookup_def name_lookup_def library_call_def bigquery_Client_def

lemmas library_defs =
  read_gbq_def client_query_def result_def create_dataset_def authenticate_user_def
  run_job_def api_call_def

lemma cell_materialize_service:
  assumes "cell_materialize E nb = (Inr (), nb')"
  shows "tables (bigquery_service nb') = tables (bigquery_service nb)
       \<and> imaging_level4 (bigquery_service nb') = imaging_level4 (bigquery_service nb)
       \<and> calls (bigquery_service nb') = calls (bigquery_service nb) + 3"
  using assms
  by (auto simp: cell_materialize_def cell_steps library_defs
      split: option.splits sum.splits if_splits)

lemma started:
  "run_cells [cell_imports, cell_client] (fresh_kernel S) = (None, ready_notebook S)"
  by (simp add: cell_imports_def cell_client_def cell_steps fresh_kernel_def ready_notebook_def)

text \<open>
  C1 at two projects. In a project without the table, the import, client, proximity
  and materialization cells complete, the table
  \<^verbatim>\<open>isb-cgc-outreach.temp15432.Melanoma_CyCIF_HTA7_1_3_points_within_20um\<close> still does
  not exist, and the next cell, which reads it, fails. In a project that holds an
  older table of that name, the table is left as it was, and differs from the result
  of the proximity query.
\<close>

theorem proximity_result_not_persisted:
  "(case run_cells [cell_imports, cell_client, cell_proximity, cell_materialize taxicab_engine]
           (fresh_kernel empty_project) of
      (Some e, nb) \<Rightarrow> False
    | (None, nb) \<Rightarrow>
        tables (bigquery_service nb) (points_within_20um ''isb-cgc-outreach'') = None
        \<and> fst (cell_peek taxicab_engine nb)
            = Inl (GenericGBQException (NotFound (points_within_20um ''isb-cgc-outreach''))))
   \<and> (case run_cells [cell_imports, cell_client, cell_proximity, cell_materialize taxicab_engine]
             (fresh_kernel stale_project) of
        (Some e, nb) \<Rightarrow> False
      | (None, nb) \<Rightarrow>
          tables (bigquery_service nb) (points_within_20um ''isb-cgc-outreach'')
            = Some (Pairs [pair_of taxicab_engine cell_c cell_c])
          \<and> tables (bigquery_service nb) (points_within_20um ''isb-cgc-outreach'')
            \<noteq> Some (Pairs (proximity_query taxicab_engine
                               (imaging_level4 (bigquery_service nb)))))"
  by (simp add: cell_imports_def cell_client_def cell_proximity_def cell_materialize_def
      cell_peek_def cell_steps library_defs run_sql_def fresh_kernel_def empty_project_def
      stale_project_def proximity_query_exact two_valued_defs cell_a_def cell_b_def cell_d_def
      taxicab_engine_def)

section \<open>Failures\<close>




definition query_failure :: "sql \<Rightarrow> service \<Rightarrow> api_error option" where
  "query_failure q S =
     (case q of
        Peek project \<Rightarrow>
          (case tables S (points_within_20um project) of
             None \<Rightarrow> Some (NotFound (points_within_20um project))
           | Some t \<Rightarrow> None)
      | Aggregation project \<Rightarrow>
          (case tables S (points_within_20um project) of
             None \<Rightarrow> Some (NotFound (points_within_20um project))
           | Some (Pairs T) \<Rightarrow> None
           | Some _ \<Rightarrow> Some (InvalidQuery (points_within_20um project)))
      | _ \<Rightarrow> None)"







lemma run_sql_Inr: "run_sql E q S = Inr rows \<Longrightarrow> query_failure q S = None"
  by (auto simp: run_sql_def query_failure_def split: sql.splits option.splits dataframe.splits)













text \<open>
  In a kernel where \<open>auth\<close> is not bound, the import cell of the notebook leaves
  it unbound, and a run of all cells ends at the authentication cell with the
  NameError, before any call into a library.
\<close>

lemma run_all_stops_at_authenticate:
  assumes "''auth'' \<notin> set (modules nb)"
  shows "fst (run_cells (notebook_cells E) nb) = Some (NameError ''auth'')"
    and "calls (bigquery_service (snd (run_cells (notebook_cells E) nb)))
      = calls (bigquery_service nb)"
  using assms
  by (simp_all add: notebook_cells_def cell_imports_def cell_authenticate_def cell_steps)

end
